theory Spec2Isabelle
  imports Complex_Main "HOL-Library.Log_Nat"
begin

section \<open>Numeric scalars\<close>

text \<open>
  The array writers of \<^verbatim>\<open>nibabel/arraywriters.py\<close> compute with NumPy scalars: integers
  of a fixed width and binary floating-point numbers of several precisions.  A floating
  value is an exact real number (always a rational), an infinity or a NaN; the sign of
  zero is not represented, since no comparison, finiteness test or division of the
  writers can observe it (the divisors are the shared range bounds and their difference,
  which are never zero).
\<close>

datatype flt = Fin real | PInf | NInf | NaN

datatype num = IntV int | FltV flt

text \<open>A binary format: precision in bits (with the hidden bit) and largest exponent.\<close>

record fmt =
  prec :: nat
  emax :: int

datatype ftype = Float16 | Float32 | Float64 | Longdouble

text \<open>
  \<^verbatim>\<open>np.finfo\<close>: IEEE half, single and double; \<^verbatim>\<open>np.longdouble\<close> is taken as the x87
  extended format (64-bit significand), the platform the comments of
  \<^verbatim>\<open>_range_scale\<close> assume when they contrast it with Windows.
\<close>

fun finfo :: "ftype \<Rightarrow> fmt" where
  "finfo Float16 = \<lparr>prec = 11, emax = 15\<rparr>"
| "finfo Float32 = \<lparr>prec = 24, emax = 127\<rparr>"
| "finfo Float64 = \<lparr>prec = 53, emax = 1023\<rparr>"
| "finfo Longdouble = \<lparr>prec = 64, emax = 16383\<rparr>"

text \<open>\<open>ilog2 x\<close> is the binary exponent of a positive number: \<open>2^e \<le> x < 2^(e+1)\<close>.\<close>

definition ilog2 :: "real \<Rightarrow> int" where
  "ilog2 x = (if 1 \<le> x then bitlen \<lfloor>x\<rfloor> - 1 else - bitlen (\<lceil>1 / x\<rceil> - 1))"

definition round_even :: "real \<Rightarrow> int" where
  "round_even q =
     (let f = \<lfloor>q\<rfloor>; r = q - of_int f
      in if r < 1 / 2 then f
         else if 1 / 2 < r then f + 1
         else if even f then f else f + 1)"

text \<open>
  Rounding an exact value into a format, to nearest with ties to even: the
  significand is rounded at the exponent of the value (or at the smallest exponent,
  for subnormals), and a result beyond the largest finite number is an infinity.
\<close>

definition fl_round :: "fmt \<Rightarrow> real \<Rightarrow> flt" where
  "fl_round f x =
     (if x = 0 then Fin 0
      else let a = \<bar>x\<bar>;
               e = max (ilog2 a) (1 - emax f);
               u = 2 powi (e - int (prec f) + 1);
               r = round_even (a / u)
           in if emax f < e \<or> (e = emax f \<and> 2 ^ prec f \<le> r)
              then (if x < 0 then NInf else PInf)
              else Fin (sgn x * (of_int r * u)))"

text \<open>Conversion of a scalar to a floating type (\<^verbatim>\<open>dtype.type(val)\<close>, \<^verbatim>\<open>astype\<close>).\<close>

fun fl_cast :: "fmt \<Rightarrow> flt \<Rightarrow> flt" where
  "fl_cast f (Fin x) = fl_round f x"
| "fl_cast f v = v"

fun is_finite :: "flt \<Rightarrow> bool" where
  "is_finite (Fin x) = True"
| "is_finite v = False"

subsection \<open>Comparison\<close>

fun fl_le :: "flt \<Rightarrow> flt \<Rightarrow> bool" where
  "fl_le NaN b = False"
| "fl_le a NaN = False"
| "fl_le NInf b = True"
| "fl_le a PInf = True"
| "fl_le (Fin x) (Fin y) = (x \<le> y)"
| "fl_le a b = False"

fun fl_eq :: "flt \<Rightarrow> flt \<Rightarrow> bool" where
  "fl_eq NaN b = False"
| "fl_eq a NaN = False"
| "fl_eq a b = (a = b)"

definition fl_lt :: "flt \<Rightarrow> flt \<Rightarrow> bool" where
  "fl_lt a b = (fl_le a b \<and> \<not> fl_eq a b)"

text \<open>
  Integers and floats are compared by value: the exact embedding \<open>ext\<close> stands for
  the promotion NumPy applies before a mixed comparison.
\<close>

fun ext :: "num \<Rightarrow> flt" where
  "ext (IntV i) = Fin (of_int i)"
| "ext (FltV v) = v"

definition num_le :: "num \<Rightarrow> num \<Rightarrow> bool" where
  "num_le a b = fl_le (ext a) (ext b)"

definition num_lt :: "num \<Rightarrow> num \<Rightarrow> bool" where
  "num_lt a b = fl_lt (ext a) (ext b)"

definition num_eq :: "num \<Rightarrow> num \<Rightarrow> bool" where
  "num_eq a b = fl_eq (ext a) (ext b)"

subsection \<open>Arithmetic in a floating format\<close>

fun fl_sub :: "fmt \<Rightarrow> flt \<Rightarrow> flt \<Rightarrow> flt" where
  "fl_sub f (Fin a) (Fin b) = fl_round f (a - b)"
| "fl_sub f NaN b = NaN"
| "fl_sub f a NaN = NaN"
| "fl_sub f PInf PInf = NaN"
| "fl_sub f NInf NInf = NaN"
| "fl_sub f PInf b = PInf"
| "fl_sub f NInf b = NInf"
| "fl_sub f a PInf = NInf"
| "fl_sub f a NInf = PInf"

fun fl_mul :: "fmt \<Rightarrow> flt \<Rightarrow> flt \<Rightarrow> flt" where
  "fl_mul f (Fin a) (Fin b) = fl_round f (a * b)"
| "fl_mul f NaN b = NaN"
| "fl_mul f a NaN = NaN"
| "fl_mul f (Fin a) PInf = (if a = 0 then NaN else if 0 < a then PInf else NInf)"
| "fl_mul f (Fin a) NInf = (if a = 0 then NaN else if 0 < a then NInf else PInf)"
| "fl_mul f PInf (Fin b) = (if b = 0 then NaN else if 0 < b then PInf else NInf)"
| "fl_mul f NInf (Fin b) = (if b = 0 then NaN else if 0 < b then NInf else PInf)"
| "fl_mul f PInf PInf = PInf"
| "fl_mul f NInf NInf = PInf"
| "fl_mul f PInf NInf = NInf"
| "fl_mul f NInf PInf = NInf"

fun fl_div :: "fmt \<Rightarrow> flt \<Rightarrow> flt \<Rightarrow> flt" where
  "fl_div f (Fin a) (Fin b) =
     (if b = 0 then (if a = 0 then NaN else if 0 < a then PInf else NInf)
      else fl_round f (a / b))"
| "fl_div f NaN b = NaN"
| "fl_div f a NaN = NaN"
| "fl_div f (Fin a) b = Fin 0"
| "fl_div f PInf (Fin b) = (if b < 0 then NInf else PInf)"
| "fl_div f NInf (Fin b) = (if b < 0 then PInf else NInf)"
| "fl_div f a b = NaN"

text \<open>\<^verbatim>\<open>np.max\<close> of a two-element array: a NaN propagates.\<close>

definition fl_max :: "flt \<Rightarrow> flt \<Rightarrow> flt" where
  "fl_max a b = (if a = NaN \<or> b = NaN then NaN else if fl_le a b then b else a)"

section \<open>Element types and arrays\<close>

text \<open>
  A NumPy dtype is represented by its kind character and its item size in bytes:
  \<^verbatim>\<open>'u'\<close>, \<^verbatim>\<open>'i'\<close>, \<^verbatim>\<open>'f'\<close>, \<^verbatim>\<open>'c'\<close> and \<^verbatim>\<open>'V'\<close> (void: structured and
  opaque records).  These are the kinds \<^verbatim>\<open>scaling_needed\<close> distinguishes; booleans,
  objects, strings and dates are left out.
\<close>

datatype kind = KUInt | KInt | KFloat | KComplex | KVoid

datatype dtype = DType (kind: kind) (itemsize: nat)

text \<open>An array is its dtype and the sequence of its elements (the shape plays no role).\<close>

datatype ndarray = NDArray (dtype: dtype) (elems: "num list")

text \<open>
  The exceptions of the module, with the messages of the source.  \<^verbatim>\<open>ScalingError\<close> is
  a subclass of \<^verbatim>\<open>WriterError\<close>.
\<close>

datatype error =
    WriterError string
  | ScalingError string
  | ValueError string
  | TypeError string
  | AssertionError

fun is_WriterError :: "error \<Rightarrow> bool" where
  "is_WriterError (WriterError m) = True"
| "is_WriterError (ScalingError m) = True"
| "is_WriterError e = False"

text \<open>The failures the specification names, as the exceptions the source raises.\<close>

definition IncompatibleKinds :: error where
  "IncompatibleKinds = WriterError ''Cannot cast to or from non-numeric types''"

definition ComplexToReal :: error where
  "ComplexToReal = WriterError ''Cannot cast complex types to non-complex''"

definition UnsignedSpanError :: error where
  "UnsignedSpanError =
     WriterError ''Cannot scale negative and positive numbers to uint without intercept''"

definition CapabilityMismatch :: error where
  "CapabilityMismatch = ValueError ''Cannot handle intercept without slope''"

subsection \<open>NumPy services\<close>

text \<open>\<^verbatim>\<open>np.iinfo(dt).min\<close> and \<^verbatim>\<open>.max\<close> for the integer kinds.\<close>

definition iinfo_min :: "dtype \<Rightarrow> int" where
  "iinfo_min dt = (if kind dt = KInt then - (2 ^ (8 * itemsize dt - 1)) else 0)"

definition iinfo_max :: "dtype \<Rightarrow> int" where
  "iinfo_max dt =
     (if kind dt = KInt then 2 ^ (8 * itemsize dt - 1) - 1 else 2 ^ (8 * itemsize dt) - 1)"

text \<open>
  \<^verbatim>\<open>np.can_cast(a, b)\<close> with the default \<^verbatim>\<open>'safe'\<close> rule, on the kinds above: a dtype
  casts to itself; integers widen (an unsigned integer needs a strictly wider signed
  one); an integer casts to a float whose size is larger, or to any float of at least
  eight bytes; a complex number holds two floats of half its size; a void dtype casts
  only to itself.
\<close>

definition int_to_float_ok :: "nat \<Rightarrow> nat \<Rightarrow> bool" where
  "int_to_float_ok a b = (a < b \<or> 8 \<le> b)"

fun can_cast_kind :: "kind \<Rightarrow> nat \<Rightarrow> kind \<Rightarrow> nat \<Rightarrow> bool" where
  "can_cast_kind KUInt a KUInt b = (a \<le> b)"
| "can_cast_kind KUInt a KInt b = (a < b)"
| "can_cast_kind KUInt a KFloat b = int_to_float_ok a b"
| "can_cast_kind KUInt a KComplex b = int_to_float_ok a (b div 2)"
| "can_cast_kind KInt a KInt b = (a \<le> b)"
| "can_cast_kind KInt a KFloat b = int_to_float_ok a b"
| "can_cast_kind KInt a KComplex b = int_to_float_ok a (b div 2)"
| "can_cast_kind KFloat a KFloat b = (a \<le> b)"
| "can_cast_kind KFloat a KComplex b = (a \<le> b div 2)"
| "can_cast_kind KComplex a KComplex b = (a \<le> b)"
| "can_cast_kind k a k' b = False"

definition can_cast :: "dtype \<Rightarrow> dtype \<Rightarrow> bool" where
  "can_cast a b = (a = b \<or> can_cast_kind (kind a) (itemsize a) (kind b) (itemsize b))"

text \<open>
  \<^verbatim>\<open>abs\<close> of a NumPy scalar: a signed integer is negated in its own width, so the
  most negative value is its own absolute value.
\<close>

fun np_abs :: "dtype \<Rightarrow> num \<Rightarrow> num" where
  "np_abs dt (IntV i) = IntV (if kind dt = KInt \<and> i = iinfo_min dt then i else \<bar>i\<bar>)"
| "np_abs dt (FltV (Fin x)) = FltV (Fin \<bar>x\<bar>)"
| "np_abs dt (FltV NInf) = FltV PInf"
| "np_abs dt (FltV v) = FltV v"

subsection \<open>Collaborators from \<^verbatim>\<open>casting\<close> and \<^verbatim>\<open>volumeutils\<close>\<close>

text \<open>
  Modelled from the spec: \<^verbatim>\<open>casting.shared_range\<close>.  The shared range is the span of
  the scaler type intersected with the integer range of the target: its maximum is the
  largest scaler value not above the integer maximum, its minimum the smallest scaler
  value not below the integer minimum.  \<open>floor_exact f n\<close> is the largest value of the
  format \<open>f\<close> not above the positive integer \<open>n\<close>.
\<close>

definition fmax :: "fmt \<Rightarrow> real" where
  "fmax f = of_int (2 ^ prec f - 1) * 2 powi (emax f - int (prec f) + 1)"

definition floor_exact :: "fmt \<Rightarrow> int \<Rightarrow> real" where
  "floor_exact f n =
     (if n \<le> 0 then 0
      else let e = bitlen n - 1
           in if emax f < e then fmax f
              else let s = nat (e - int (prec f) + 1)
                   in of_int ((n div 2 ^ s) * 2 ^ s))"

definition shared_range :: "ftype \<Rightarrow> dtype \<Rightarrow> flt \<times> flt" where
  "shared_range flt_type int_type =
     (Fin (- floor_exact (finfo flt_type) (- iinfo_min int_type)),
      Fin (floor_exact (finfo flt_type) (iinfo_max int_type)))"

text \<open>
  Modelled from the spec: \<^verbatim>\<open>casting.as_int\<close>, the value as an exact integer, and
  \<^verbatim>\<open>casting.int_to_float\<close>, the integer in the extended-precision type.
\<close>

fun as_int :: "num \<Rightarrow> error + int" where
  "as_int (IntV i) = Inr i"
| "as_int (FltV (Fin x)) =
     (if of_int \<lfloor>x\<rfloor> = x then Inr \<lfloor>x\<rfloor> else Inl (ValueError ''Not an integer''))"
| "as_int (FltV v) = Inl (ValueError ''Not an integer'')"

definition int_to_float :: "int \<Rightarrow> ftype \<Rightarrow> flt" where
  "int_to_float i t = fl_round (finfo t) (of_int i)"

text \<open>
  Modelled from the spec: \<^verbatim>\<open>volumeutils.finite_range\<close>, the minimum and maximum among
  the finite elements, and the pair \<open>(+\<infinity>, -\<infinity>)\<close> when no element is finite.  The
  specification leaves the empty array undefined; it is an error here, as are the
  kinds that are neither integer nor floating.
\<close>

definition num_finite :: "num \<Rightarrow> bool" where
  "num_finite v = is_finite (ext v)"

definition num_min :: "num \<Rightarrow> num \<Rightarrow> num" where
  "num_min a b = (if num_le b a then b else a)"

definition num_max :: "num \<Rightarrow> num \<Rightarrow> num" where
  "num_max a b = (if num_le a b then b else a)"

definition finite_range :: "ndarray \<Rightarrow> error + (num \<times> num)" where
  "finite_range arr =
     (if kind (dtype arr) \<in> {KUInt, KInt, KFloat} then
        (if elems arr = [] then Inl (ValueError ''zero-size array'')
         else case filter num_finite (elems arr) of
                [] \<Rightarrow> Inr (FltV PInf, FltV NInf)
              | x # xs \<Rightarrow> Inr (fold num_min xs x, fold num_max xs x))
      else Inl (TypeError ''Can only handle floats and (u)ints''))"

text \<open>
  An array is well formed when its elements have the type its dtype announces: integers
  within the range of an integer dtype of 1, 2, 4 or 8 bytes, floating values for a
  floating dtype.
\<close>

fun elem_ok :: "dtype \<Rightarrow> num \<Rightarrow> bool" where
  "elem_ok dt (IntV i) = (kind dt \<in> {KUInt, KInt} \<and> iinfo_min dt \<le> i \<and> i \<le> iinfo_max dt)"
| "elem_ok dt (FltV v) = (kind dt = KFloat)"


definition wf_array :: "ndarray \<Rightarrow> bool" where
  "wf_array arr =
     (list_all (elem_ok (dtype arr)) (elems arr) \<and>
      (kind (dtype arr) \<in> {KUInt, KInt} \<longrightarrow> itemsize (dtype arr) \<in> {1, 2, 4, 8}))"

section \<open>The array writers\<close>

text \<open>
  Each class is a record; a subclass extends the record of its parent, and the
  methods of the parent apply to it through the record scheme.  A constructor returns
  the object or the exception it raises.  A method that assigns to the object before
  it may raise returns the exception, if any, together with the object as the method
  left it: the caller of \<^verbatim>\<open>calc_scale\<close> keeps the object after a failure.

  The finite range is a function of the array, which no writer mutates; the attribute
  \<^verbatim>\<open>_finite_range\<close> that caches it holds that same pair and is left out.
\<close>

record array_writer =
  array :: ndarray
  out_dtype :: dtype

record slope_array_writer = array_writer +
  needs_scale :: bool
  scaler_dtype :: ftype
  slope :: flt
  scale_calced :: bool

record slope_inter_array_writer = slope_array_writer +
  inter' :: flt

subsection \<open>\<^verbatim>\<open>ArrayWriter\<close>\<close>

definition scaling_needed :: "'a array_writer_scheme \<Rightarrow> error + bool" where
  "scaling_needed self =
     (let arr_dtype = dtype (array self); out = out_dtype self
      in if can_cast arr_dtype out then Inr False
         else if kind arr_dtype = KVoid \<or> kind out = KVoid
           then Inl (WriterError ''Cannot cast to or from non-numeric types'')
         else if kind out = KComplex then Inr False
         else if kind arr_dtype = KComplex
           then Inl (WriterError ''Cannot cast complex types to non-complex'')
         else if kind out = KFloat then Inr False
         else case finite_range (array self) of
                Inl e \<Rightarrow> Inl e
              | Inr (mn, mx) \<Rightarrow>
                  if (num_eq mn (IntV 0) \<and> num_eq mx (IntV 0)) \<or>
                     (num_eq mn (FltV PInf) \<and> num_eq mx (FltV NInf))
                  then Inr False
                  else if kind arr_dtype = KFloat then Inr True
                  else if \<not> (kind arr_dtype \<in> {KInt, KUInt} \<and> kind out \<in> {KInt, KUInt})
                    then Inl AssertionError
                  else if num_le (IntV (iinfo_min out)) mn \<and> num_le mx (IntV (iinfo_max out))
                    then Inr False
                  else Inr True)"

definition ArrayWriter_init :: "ndarray \<Rightarrow> dtype option \<Rightarrow> error + array_writer" where
  "ArrayWriter_init arr out =
     (let self = \<lparr>array = arr,
                  out_dtype = (case out of None \<Rightarrow> dtype arr | Some d \<Rightarrow> d)\<rparr>
      in case scaling_needed self of
           Inl e \<Rightarrow> Inl e
         | Inr True \<Rightarrow> Inl (WriterError ''Scaling needed but cannot scale'')
         | Inr False \<Rightarrow> Inr self)"

definition writing_range :: "'a array_writer_scheme \<Rightarrow> error + (num option \<times> num option)" where
  "writing_range self =
     (if kind (out_dtype self) \<in> {KInt, KUInt} \<and> kind (dtype (array self)) = KFloat then
        (case finite_range (array self) of
           Inl e \<Rightarrow> Inl e
         | Inr (mn, mx) \<Rightarrow>
             if num_eq mn (FltV PInf) \<and> num_eq mx (FltV NInf)
             then Inr (Some (IntV 0), Some (IntV 0))
             else Inr (Some mn, Some mx))
      else Inr (None, None))"

text \<open>
  \<^verbatim>\<open>to_fileobj\<close> has one effect, the call of \<^verbatim>\<open>volumeutils.array_to_file\<close>; the model
  returns the arguments of that call (the file object apart, and \<^verbatim>\<open>offset=None\<close>).
  The defaults of \<^verbatim>\<open>array_to_file\<close> are \<^verbatim>\<open>intercept=0.0\<close> and \<^verbatim>\<open>divslope=1.0\<close>.
\<close>

record array_to_file_call =
  atf_data :: ndarray
  atf_out_dtype :: dtype
  atf_intercept :: flt
  atf_divslope :: flt
  atf_mn :: "num option"
  atf_mx :: "num option"
  atf_order :: string
  atf_nan2zero :: bool

definition ArrayWriter_to_fileobj ::
    "'a array_writer_scheme \<Rightarrow> string \<Rightarrow> bool \<Rightarrow> error + array_to_file_call" where
  "ArrayWriter_to_fileobj self order nan2zero =
     (case writing_range self of
        Inl e \<Rightarrow> Inl e
      | Inr (mn, mx) \<Rightarrow>
          Inr \<lparr>atf_data = array self, atf_out_dtype = out_dtype self,
               atf_intercept = Fin 0, atf_divslope = Fin 1,
               atf_mn = mn, atf_mx = mx, atf_order = order, atf_nan2zero = nan2zero\<rparr>)"

subsection \<open>\<^verbatim>\<open>SlopeArrayWriter\<close>\<close>

text \<open>The property setters coerce the assigned value to the scaler type.\<close>

definition set_slope ::
    "'a slope_array_writer_scheme \<Rightarrow> flt \<Rightarrow> 'a slope_array_writer_scheme" where
  "set_slope self val = self\<lparr>slope := fl_cast (finfo (scaler_dtype self)) val\<rparr>"

definition set_inter ::
    "'a slope_inter_array_writer_scheme \<Rightarrow> flt \<Rightarrow> 'a slope_inter_array_writer_scheme" where
  "set_inter self val = self\<lparr>inter' := fl_cast (finfo (scaler_dtype self)) val\<rparr>"

text \<open>Operands of the range computations are promoted to \<^verbatim>\<open>np.longdouble\<close>.\<close>

definition as_longdouble :: "num \<Rightarrow> flt" where
  "as_longdouble v = fl_cast (finfo Longdouble) (ext v)"

definition SlopeArrayWriter_range_scale ::
    "'a slope_array_writer_scheme \<Rightarrow> error option \<times> 'a slope_array_writer_scheme" where
  "SlopeArrayWriter_range_scale self =
     (case finite_range (array self) of
        Inl e \<Rightarrow> (Some e, self)
      | Inr (mn, mx) \<Rightarrow>
          let (smin, smax) = shared_range (scaler_dtype self) (out_dtype self);
              shared_min = fl_cast (finfo Longdouble) smin;
              shared_max = fl_cast (finfo Longdouble) smax
          in if kind (out_dtype self) = KUInt then
               (if num_lt mn (IntV 0) \<and> num_lt (IntV 0) mx then
                  (Some (WriterError
                     ''Cannot scale negative and positive numbers to uint without intercept''),
                   self)
                else if num_le mx (IntV 0) then
                  (None, set_slope self
                     (fl_div (finfo Longdouble) (as_longdouble mn) shared_max))
                else
                  (None, set_slope self
                     (fl_div (finfo Longdouble) (as_longdouble mx) shared_max)))
             else
               let mx_slope = fl_div (finfo Longdouble) (as_longdouble mx) shared_max;
                   mn_slope = fl_div (finfo Longdouble) (as_longdouble mn) shared_min
               in (None, set_slope self (fl_max mx_slope mn_slope)))"

definition SlopeArrayWriter_do_scaling ::
    "'a slope_array_writer_scheme \<Rightarrow> error option \<times> 'a slope_array_writer_scheme" where
  "SlopeArrayWriter_do_scaling self =
     (let arr_dtype = dtype (array self); out = out_dtype self
      in if kind out \<notin> {KInt, KUInt} then (Some AssertionError, self)
         else case finite_range (array self) of
                Inl e \<Rightarrow> (Some e, self)
              | Inr (mn, mx) \<Rightarrow>
                  if kind arr_dtype = KFloat then SlopeArrayWriter_range_scale self
                  else
                    let out_max = iinfo_max out; out_min = iinfo_min out
                    in if num_le mx (IntV out_max) \<and> num_le (IntV out_min) mn
                       then (None, self)
                       else if kind out = KUInt \<and>
                               num_le mx (IntV 0) \<and>
                               fl_le (ext (np_abs arr_dtype mn))
                                     (snd (shared_range (scaler_dtype self) out))
                         then (None, set_slope self (Fin (- 1)))
                       else SlopeArrayWriter_range_scale self)"

text \<open>
  \<^verbatim>\<open>calc_scale\<close> is inherited by \<^verbatim>\<open>SlopeInterArrayWriter\<close> and calls the
  \<^verbatim>\<open>_do_scaling\<close> of the object's class, passed here as an argument.
\<close>

definition calc_scale ::
    "('a slope_array_writer_scheme \<Rightarrow> error option \<times> 'a slope_array_writer_scheme) \<Rightarrow>
     bool \<Rightarrow> 'a slope_array_writer_scheme \<Rightarrow> error option \<times> 'a slope_array_writer_scheme" where
  "calc_scale do_scaling force self =
     (if \<not> force \<and> scale_calced self then (None, self)
      else let self1 = self\<lparr>scale_calced := True\<rparr>
           in case scaling_needed self1 of
                Inl e \<Rightarrow> (Some e, self1)
              | Inr False \<Rightarrow> (None, self1)
              | Inr True \<Rightarrow> do_scaling self1)"

definition SlopeArrayWriter_calc_scale ::
    "bool \<Rightarrow> slope_array_writer \<Rightarrow> error option \<times> slope_array_writer" where
  "SlopeArrayWriter_calc_scale = calc_scale SlopeArrayWriter_do_scaling"

definition SlopeArrayWriter_init ::
    "ndarray \<Rightarrow> dtype option \<Rightarrow> bool \<Rightarrow> ftype \<Rightarrow> error + slope_array_writer" where
  "SlopeArrayWriter_init arr out calc scaler =
     (let self0 = \<lparr>array = arr,
                   out_dtype = (case out of None \<Rightarrow> dtype arr | Some d \<Rightarrow> d)\<rparr>
      in case scaling_needed self0 of
           Inl e \<Rightarrow> Inl e
         | Inr ns \<Rightarrow>
             let self = \<lparr>array = array self0, out_dtype = out_dtype self0,
                         needs_scale = ns, scaler_dtype = scaler,
                         slope = fl_cast (finfo scaler) (Fin 1), scale_calced = False\<rparr>
             in if calc then
                  (case SlopeArrayWriter_calc_scale False self of
                     (Some e, self') \<Rightarrow> Inl e
                   | (None, self') \<Rightarrow> Inr self')
                else Inr self)"

definition SlopeArrayWriter_to_fileobj ::
    "'a slope_array_writer_scheme \<Rightarrow> string \<Rightarrow> bool \<Rightarrow> error + array_to_file_call" where
  "SlopeArrayWriter_to_fileobj self order nan2zero =
     (case writing_range self of
        Inl e \<Rightarrow> Inl e
      | Inr (mn, mx) \<Rightarrow>
          Inr \<lparr>atf_data = array self, atf_out_dtype = out_dtype self,
               atf_intercept = Fin 0, atf_divslope = slope self,
               atf_mn = mn, atf_mx = mx, atf_order = order, atf_nan2zero = nan2zero\<rparr>)"

subsection \<open>\<^verbatim>\<open>SlopeInterArrayWriter\<close>\<close>

definition SlopeInterArrayWriter_range_scale ::
    "'a slope_inter_array_writer_scheme \<Rightarrow>
     error option \<times> 'a slope_inter_array_writer_scheme" where
  "SlopeInterArrayWriter_range_scale self =
     (case finite_range (array self) of
        Inl e \<Rightarrow> (Some e, self)
      | Inr (mn, mx) \<Rightarrow>
          if num_eq mx mn then (None, set_inter self (ext mn))
          else
            let (shared_min, shared_max) = shared_range (scaler_dtype self) (out_dtype self);
                scaled_mn2mx = fl_sub (finfo Longdouble)
                                 (fl_cast (finfo Longdouble) shared_max)
                                 (fl_cast (finfo Longdouble) shared_min)
            in case (case mn of
                       FltV v \<Rightarrow>
                         Inr (fl_sub (finfo Longdouble) (as_longdouble mx) (as_longdouble mn))
                     | IntV i \<Rightarrow>
                         (case as_int mx of
                            Inl e \<Rightarrow> Inl e
                          | Inr a \<Rightarrow>
                              (case as_int mn of
                                 Inl e \<Rightarrow> Inl e
                               | Inr b \<Rightarrow> Inr (int_to_float (a - b) Longdouble)))) of
                 Inl e \<Rightarrow> (Some e, self)
               | Inr mn2mx \<Rightarrow>
                   let slope_v = fl_div (finfo Longdouble) mn2mx scaled_mn2mx;
                       self1 = set_inter self
                                 (fl_sub (finfo Longdouble) (as_longdouble mn)
                                    (fl_mul (finfo Longdouble)
                                       (fl_cast (finfo Longdouble) shared_min) slope_v));
                       self2 = set_slope self1 slope_v
                   in if \<not> (is_finite (slope self2) \<and> is_finite (inter' self2))
                      then (Some (ScalingError ''Slope / inter not both finite''), self2)
                      else (None, self2))"

definition SlopeInterArrayWriter_do_scaling ::
    "'a slope_inter_array_writer_scheme \<Rightarrow>
     error option \<times> 'a slope_inter_array_writer_scheme" where
  "SlopeInterArrayWriter_do_scaling self =
     (let arr_dtype = dtype (array self); out = out_dtype self
      in if kind out \<notin> {KInt, KUInt} then (Some AssertionError, self)
         else case finite_range (array self) of
                Inl e \<Rightarrow> (Some e, self)
              | Inr (mn, mx) \<Rightarrow>
                  if num_eq mn (FltV PInf) then (None, self)
                  else if num_eq mn (FltV (Fin 0)) \<and> num_eq mx (FltV (Fin 0))
                    then (None, self)
                  else if kind arr_dtype = KFloat then SlopeInterArrayWriter_range_scale self
                  else
                    let out_max = iinfo_max out; out_min = iinfo_min out
                    in if num_le mx (IntV out_max) \<and> num_le (IntV out_min) mn
                       then (None, self)
                       else if kind out = KUInt then
                         (let shared_max = snd (shared_range (scaler_dtype self) out)
                          in case as_int mx of
                               Inl e \<Rightarrow> (Some e, self)
                             | Inr a \<Rightarrow>
                                 (case as_int mn of
                                    Inl e \<Rightarrow> (Some e, self)
                                  | Inr b \<Rightarrow>
                                      if fl_le (Fin (of_int (a - b))) shared_max
                                      then (None, set_inter self (ext mn))
                                      else if num_le mx (IntV 0) \<and>
                                              fl_le (ext (np_abs arr_dtype mn)) shared_max
                                        then (None, set_slope self (Fin (- 1)))
                                      else SlopeInterArrayWriter_range_scale self))
                       else SlopeInterArrayWriter_range_scale self)"

definition SlopeInterArrayWriter_calc_scale ::
    "bool \<Rightarrow> slope_inter_array_writer \<Rightarrow> error option \<times> slope_inter_array_writer" where
  "SlopeInterArrayWriter_calc_scale = calc_scale SlopeInterArrayWriter_do_scaling"

text \<open>
  The constructor runs the parent's constructor with \<^verbatim>\<open>calc_scale=False\<close>, sets the
  intercept, and only then computes the scale.
\<close>

definition SlopeInterArrayWriter_init ::
    "ndarray \<Rightarrow> dtype option \<Rightarrow> bool \<Rightarrow> ftype \<Rightarrow> error + slope_inter_array_writer" where
  "SlopeInterArrayWriter_init arr out calc scaler =
     (case SlopeArrayWriter_init arr out False scaler of
        Inl e \<Rightarrow> Inl e
      | Inr super \<Rightarrow>
          let self = \<lparr>array = array super, out_dtype = out_dtype super,
                      needs_scale = needs_scale super, scaler_dtype = scaler_dtype super,
                      slope = slope super, scale_calced = scale_calced super,
                      inter' = fl_cast (finfo (scaler_dtype super)) (Fin 0)\<rparr>
          in if calc then
               (case SlopeInterArrayWriter_calc_scale False self of
                  (Some e, self') \<Rightarrow> Inl e
                | (None, self') \<Rightarrow> Inr self')
             else Inr self)"

definition SlopeInterArrayWriter_to_fileobj ::
    "'a slope_inter_array_writer_scheme \<Rightarrow> string \<Rightarrow> bool \<Rightarrow> error + array_to_file_call" where
  "SlopeInterArrayWriter_to_fileobj self order nan2zero =
     (case writing_range self of
        Inl e \<Rightarrow> Inl e
      | Inr (mn, mx) \<Rightarrow>
          Inr \<lparr>atf_data = array self, atf_out_dtype = out_dtype self,
               atf_intercept = inter' self, atf_divslope = slope self,
               atf_mn = mn, atf_mx = mx, atf_order = order, atf_nan2zero = nan2zero\<rparr>)"

subsection \<open>The factory\<close>

text \<open>
  The capability flags are Python objects: \<^verbatim>\<open>make_array_writer\<close> compares them with
  \<^verbatim>\<open>True\<close> and \<^verbatim>\<open>False\<close> by \<^verbatim>\<open>==\<close> and then tests their truth value.  In Python
  \<^verbatim>\<open>1 == True\<close> and \<^verbatim>\<open>0 == False\<close> hold, and no other integer equals a boolean.
\<close>

datatype pyval = PyBool bool | PyInt int | PyNone | PyStr string

fun py_eq_bool :: "pyval \<Rightarrow> bool \<Rightarrow> bool" where
  "py_eq_bool (PyBool c) b = (c = b)"
| "py_eq_bool (PyInt i) b = (i = (if b then 1 else 0))"
| "py_eq_bool v b = False"

fun truthy :: "pyval \<Rightarrow> bool" where
  "truthy (PyBool b) = b"
| "truthy (PyInt i) = (i \<noteq> 0)"
| "truthy PyNone = False"
| "truthy (PyStr s) = (s \<noteq> [])"

datatype writer =
    AW array_writer
  | SAW slope_array_writer
  | SIAW slope_inter_array_writer

text \<open>
  The keyword arguments the slope writers accept, each optional; the constructors
  default to \<^verbatim>\<open>calc_scale=True\<close> and \<^verbatim>\<open>scaler_dtype=np.float32\<close>.
\<close>

record kwargs =
  kw_calc_scale :: "bool option"
  kw_scaler_dtype :: "ftype option"

definition kw_calc :: "kwargs \<Rightarrow> bool" where
  "kw_calc kw = (case kw_calc_scale kw of None \<Rightarrow> True | Some b \<Rightarrow> b)"

definition kw_scaler :: "kwargs \<Rightarrow> ftype" where
  "kw_scaler kw = (case kw_scaler_dtype kw of None \<Rightarrow> Float32 | Some t \<Rightarrow> t)"

definition make_array_writer ::
    "ndarray \<Rightarrow> dtype option \<Rightarrow> pyval \<Rightarrow> pyval \<Rightarrow> kwargs \<Rightarrow> error + writer" where
  "make_array_writer data out_type has_intercept has_slope kw =
     (if py_eq_bool has_intercept True \<and> py_eq_bool has_slope False
        then Inl (ValueError ''Cannot handle intercept without slope'')
      else if truthy has_intercept then
        (case SlopeInterArrayWriter_init data out_type (kw_calc kw) (kw_scaler kw) of
           Inl e \<Rightarrow> Inl e | Inr w \<Rightarrow> Inr (SIAW w))
      else if truthy has_slope then
        (case SlopeArrayWriter_init data out_type (kw_calc kw) (kw_scaler kw) of
           Inl e \<Rightarrow> Inl e | Inr w \<Rightarrow> Inr (SAW w))
      else
        (case ArrayWriter_init data out_type of
           Inl e \<Rightarrow> Inl e | Inr w \<Rightarrow> Inr (AW w)))"

fun get_slope_inter :: "writer \<Rightarrow> flt \<times> flt" where
  "get_slope_inter (AW w) = (Fin 1, Fin 0)"
| "get_slope_inter (SAW w) = (slope w, Fin 0)"
| "get_slope_inter (SIAW w) = (slope w, inter' w)"

subsection \<open>The sink\<close>



section \<open>Vocabulary of the properties\<close>

text \<open>The dtypes that the examples use.\<close>

definition uint8 :: dtype where "uint8 = DType KUInt 1"
definition int8 :: dtype where "int8 = DType KInt 1"
definition int16 :: dtype where "int16 = DType KInt 2"
definition uint32 :: dtype where "uint32 = DType KUInt 4"
definition int64 :: dtype where "int64 = DType KInt 8"
definition float64 :: dtype where "float64 = DType KFloat 8"

text \<open>The slope and the intercept of the writer a constructor returned, if it returned one.\<close>

definition slope_of :: "error + 'a slope_array_writer_scheme \<Rightarrow> flt option" where
  "slope_of r = (case r of Inl e \<Rightarrow> None | Inr w \<Rightarrow> Some (slope w))"

definition inter_of :: "error + 'a slope_inter_array_writer_scheme \<Rightarrow> flt option" where
  "inter_of r = (case r of Inl e \<Rightarrow> None | Inr w \<Rightarrow> Some (inter' w))"








section \<open>Evaluation\<close>

text \<open>
  Concrete inputs are evaluated by the simplifier.  The bit length of a numeral follows
  its binary digits, and with \<open>let_weak_cong\<close> a \<open>let\<close> is unfolded only once the
  bound value is computed.
\<close>

lemma bitlen_One: "bitlen 1 = 1"
  by (subst compute_bitlen) simp

lemma bitlen_numeral_One: "bitlen (numeral Num.One) = 1"
  by (simp add: bitlen_One)

lemma bitlen_Bit0: "bitlen (numeral (Num.Bit0 n)) = bitlen (numeral n) + 1"
  by (subst compute_bitlen) simp

lemma bitlen_Bit1: "bitlen (numeral (Num.Bit1 n)) = bitlen (numeral n) + 1"
  by (subst compute_bitlen) simp

lemmas fl_eval = bitlen_One bitlen_numeral_One bitlen_Bit0 bitlen_Bit1
  ilog2_def round_even_def fl_round_def Let_def

lemmas np_eval = iinfo_min_def iinfo_max_def can_cast_def int_to_float_ok_def fmax_def
  floor_exact_def shared_range_def int_to_float_def num_finite_def num_min_def num_max_def
  finite_range_def num_le_def num_lt_def num_eq_def fl_lt_def fl_max_def as_longdouble_def
  uint8_def int8_def int16_def uint32_def int64_def float64_def

lemmas w_eval = scaling_needed_def ArrayWriter_init_def writing_range_def
  ArrayWriter_to_fileobj_def set_slope_def set_inter_def SlopeArrayWriter_range_scale_def
  SlopeArrayWriter_do_scaling_def calc_scale_def SlopeArrayWriter_calc_scale_def
  SlopeArrayWriter_init_def SlopeArrayWriter_to_fileobj_def
  SlopeInterArrayWriter_range_scale_def SlopeInterArrayWriter_do_scaling_def
  SlopeInterArrayWriter_calc_scale_def SlopeInterArrayWriter_init_def
  SlopeInterArrayWriter_to_fileobj_def slope_of_def inter_of_def
  make_array_writer_def kw_calc_def kw_scaler_def

lemma fl_cast_one: "fl_cast (finfo t) (Fin 1) = Fin 1"
  by (cases t) (simp_all add: fl_eval cong: let_weak_cong)

lemma fl_cast_zero: "fl_cast f (Fin 0) = Fin 0"
  by (simp add: fl_round_def)

section \<open>The finite range\<close>

lemma fold_num_min_in: "fold num_min xs x \<in> set (x # xs)"
  by (induction xs arbitrary: x) (auto simp add: num_min_def)

lemma fold_num_max_in: "fold num_max xs x \<in> set (x # xs)"
  by (induction xs arbitrary: x) (auto simp add: num_max_def)

lemma finite_range_members:
  assumes "finite_range arr = Inr (mn, mx)"
  shows "(mn = FltV PInf \<and> mx = FltV NInf) \<or>
         (mn \<in> set (elems arr) \<and> mx \<in> set (elems arr))"
proof (cases "filter num_finite (elems arr)")
  case Nil
  with assms show ?thesis
    by (auto simp add: finite_range_def split: if_splits)
next
  case (Cons x xs)
  have sub: "set (x # xs) \<subseteq> set (elems arr)"
    using Cons by (metis filter_is_subset)
  from assms Cons have "mn = fold num_min xs x" "mx = fold num_max xs x"
    by (auto simp add: finite_range_def split: if_splits)
  with fold_num_min_in[of xs x] fold_num_max_in[of xs x] sub show ?thesis
    by blast
qed

lemma fl_lt_not_le: "fl_lt a b \<Longrightarrow> \<not> fl_le b a"
  by (cases a; cases b) (auto simp add: fl_lt_def)

lemma fl_lt_not_eq: "fl_lt a b \<Longrightarrow> \<not> fl_eq a b \<and> \<not> fl_eq b a"
  by (cases a; cases b) (auto simp add: fl_lt_def)

text \<open>A well-formed array with a negative finite minimum is signed or floating.\<close>

lemma negative_min_kind:
  assumes wf: "wf_array arr" and fr: "finite_range arr = Inr (mn, mx)"
      and neg: "num_lt mn (IntV 0)"
  shows "kind (dtype arr) \<in> {KInt, KFloat}"
proof -
  from neg have "mn \<noteq> FltV PInf" by (auto simp add: num_lt_def fl_lt_def)
  with finite_range_members[OF fr] have "mn \<in> set (elems arr)" by blast
  with wf have ok: "elem_ok (dtype arr) mn"
    by (auto simp add: wf_array_def list_all_iff)
  show ?thesis
  proof (cases mn)
    case (IntV i)
    with neg have "i < 0" by (simp add: num_lt_def fl_lt_def)
    with ok IntV show ?thesis by (auto simp add: iinfo_min_def split: if_splits)
  next
    case (FltV v)
    with ok show ?thesis by simp
  qed
qed

section \<open>The scaling decision\<close>

text \<open>
  C3. Integer source, integer target, no safe cast, and a finite range \<open>(mn, mx)\<close>
  other than \<open>(0, 0)\<close> (an integer range is never the sentinel): \<^verbatim>\<open>scaling_needed\<close>
  returns false exactly when \<open>mn\<close> is at least the minimum and \<open>mx\<close> at most the
  maximum of the target's integer range, and true otherwise.
\<close>

theorem scaling_needed_int_to_int:
  fixes self :: "'a array_writer_scheme"
  assumes "kind (dtype (array self)) \<in> {KInt, KUInt}"
      and "kind (out_dtype self) \<in> {KInt, KUInt}"
      and "\<not> can_cast (dtype (array self)) (out_dtype self)"
      and "finite_range (array self) = Inr (IntV mn, IntV mx)"
      and "(mn, mx) \<noteq> (0, 0)"
  shows "scaling_needed self =
           Inr (\<not> (iinfo_min (out_dtype self) \<le> mn \<and> mx \<le> iinfo_max (out_dtype self)))"
  using assms
  by (auto simp add: scaling_needed_def Let_def num_le_def num_eq_def)

theorem scaling_needed_int_to_int_witness:
  "scaling_needed \<lparr>array = NDArray uint8 [IntV 0, IntV 255], out_dtype = int8\<rparr> = Inr True"
proof -
  let ?w = "\<lparr>array = NDArray uint8 [IntV 0, IntV 255], out_dtype = int8\<rparr>"
  have h1: "kind (dtype (array ?w)) \<in> {KInt, KUInt}" by (simp add: np_eval)
  have h2: "kind (out_dtype ?w) \<in> {KInt, KUInt}" by (simp add: np_eval)
  have h3: "\<not> can_cast (dtype (array ?w)) (out_dtype ?w)" by (simp add: np_eval)
  have h4: "finite_range (array ?w) = Inr (IntV 0, IntV 255)" by (simp add: np_eval)
  have h5: "((0::int), (255::int)) \<noteq> (0, 0)" by simp
  from scaling_needed_int_to_int[OF h1 h2 h3 h4 h5] show ?thesis by (simp add: np_eval)
qed

lemma scaling_needed_void:
  fixes self :: "'a array_writer_scheme"
  assumes "\<not> can_cast (dtype (array self)) (out_dtype self)"
      and "kind (dtype (array self)) = KVoid \<or> kind (out_dtype self) = KVoid"
  shows "scaling_needed self = Inl IncompatibleKinds"
  using assms by (auto simp add: scaling_needed_def Let_def IncompatibleKinds_def)

text \<open>
  C7, as the code has it. When NumPy cannot cast the source dtype to the target dtype and
  either of them is a void (structured or opaque) kind, \<^verbatim>\<open>scaling_needed\<close> fails with
  \<^verbatim>\<open>WriterError('Cannot cast to or from non-numeric types')\<close> whatever the elements
  are, and so does the constructor of each of the three writers.  The test of the cast
  comes first.
\<close>

theorem void_kinds_rejected:
  assumes "\<not> can_cast (dtype arr) out" and "kind (dtype arr) = KVoid \<or> kind out = KVoid"
  shows "scaling_needed \<lparr>array = arr, out_dtype = out\<rparr> = Inl IncompatibleKinds \<and>
         ArrayWriter_init arr (Some out) = Inl IncompatibleKinds \<and>
         SlopeArrayWriter_init arr (Some out) calc scaler = Inl IncompatibleKinds \<and>
         SlopeInterArrayWriter_init arr (Some out) calc scaler = Inl IncompatibleKinds"
proof -
  have a: "scaling_needed \<lparr>array = arr, out_dtype = out\<rparr> = Inl IncompatibleKinds"
    using assms by (intro scaling_needed_void) simp_all
  have b: "SlopeArrayWriter_init arr (Some out) c scaler = Inl IncompatibleKinds" for c
    by (simp add: SlopeArrayWriter_init_def a)
  show ?thesis
    by (simp add: a b ArrayWriter_init_def SlopeInterArrayWriter_init_def)
qed

theorem void_kinds_rejected_witness:
  "ArrayWriter_init (NDArray (DType KVoid 4) []) (Some int8) = Inl IncompatibleKinds \<and>
   SlopeInterArrayWriter_init (NDArray uint8 [IntV 0, IntV 255]) (Some (DType KVoid 4)) True Float32
     = Inl IncompatibleKinds"
proof -
  have h1: "\<not> can_cast (dtype (NDArray (DType KVoid 4) [])) int8" by (simp add: np_eval)
  have h2: "kind (dtype (NDArray (DType KVoid 4) [])) = KVoid \<or> kind int8 = KVoid" by simp
  have h3: "\<not> can_cast (dtype (NDArray uint8 [IntV 0, IntV 255])) (DType KVoid 4)"
    by (simp add: np_eval)
  have h4: "kind (dtype (NDArray uint8 [IntV 0, IntV 255])) = KVoid \<or> kind (DType KVoid 4) = KVoid"
    by simp
  from void_kinds_rejected[OF h1 h2] void_kinds_rejected[OF h3 h4] show ?thesis by simp
qed

text \<open>
  C7 as stated fails: a void array written with its own dtype (the default when no
  output dtype is given) casts to itself, and \<^verbatim>\<open>scaling_needed\<close> returns false
  without raising.
\<close>

theorem void_same_dtype_accepted:
  "scaling_needed \<lparr>array = NDArray (DType KVoid 4) [], out_dtype = DType KVoid 4\<rparr> = Inr False"
  by (simp add: np_eval w_eval)

section \<open>Slope-only scaling\<close>

text \<open>
  C6. A slope-only writer with an unsigned target, over a well-formed array whose
  finite range has \<open>mn < 0 < mx\<close>: whenever \<^verbatim>\<open>calc_scale\<close> runs (it is forced, or the
  scale was not computed before) it raises the \<^verbatim>\<open>WriterError\<close> for a range spanning
  zero, leaving the slope as it was; and the constructor that computes the scale fails
  with the same error.
\<close>

theorem unsigned_span_fails:
  fixes self :: slope_array_writer
  assumes out: "kind (out_dtype self) = KUInt"
      and wf: "wf_array (array self)"
      and fr: "finite_range (array self) = Inr (mn, mx)"
      and neg: "num_lt mn (IntV 0)" and pos: "num_lt (IntV 0) mx"
      and run: "force \<or> \<not> scale_calced self"
  shows "SlopeArrayWriter_calc_scale force self =
           (Some UnsignedSpanError, self\<lparr>scale_calced := True\<rparr>) \<and>
         SlopeArrayWriter_init (array self) (Some (out_dtype self)) True scaler =
           Inl UnsignedSpanError"
proof -
  from negative_min_kind[OF wf fr neg] have k: "kind (dtype (array self)) \<in> {KInt, KFloat}" .
  have nc: "\<not> can_cast (dtype (array self)) (out_dtype self)"
    using k out by (auto simp add: can_cast_def)
  have c1: "\<not> num_le (IntV 0) mn" "\<not> num_eq mn (IntV 0)" "\<not> num_eq mn (FltV PInf)"
    using neg fl_lt_not_le[of "ext mn" "ext (IntV 0)"] fl_lt_not_eq[of "ext mn" "ext (IntV 0)"]
    by (auto simp add: num_lt_def num_le_def num_eq_def fl_lt_def elim: fl_le.elims)
  have c2: "\<not> num_le mx (IntV 0)"
    using pos fl_lt_not_le[of "ext (IntV 0)" "ext mx"] by (simp add: num_lt_def num_le_def)
  have sn: "scaling_needed w = Inr True"
    if "array w = array self" "out_dtype w = out_dtype self" for w :: "'b array_writer_scheme"
    using that k out nc fr c1 c2
    by (auto simp add: scaling_needed_def Let_def iinfo_min_def)
  have rs: "SlopeArrayWriter_range_scale w = (Some UnsignedSpanError, w)"
    if "array w = array self" "out_dtype w = out_dtype self" for w :: "slope_array_writer"
    using that out fr neg pos
    by (simp add: SlopeArrayWriter_range_scale_def UnsignedSpanError_def split: prod.splits)
  have ds: "SlopeArrayWriter_do_scaling w = (Some UnsignedSpanError, w)"
    if "array w = array self" "out_dtype w = out_dtype self" for w :: "slope_array_writer"
    using that out fr c1 c2 rs[OF that]
    by (auto simp add: SlopeArrayWriter_do_scaling_def Let_def iinfo_min_def)
  have cs: "SlopeArrayWriter_calc_scale f w = (Some UnsignedSpanError, w\<lparr>scale_calced := True\<rparr>)"
    if "array w = array self" "out_dtype w = out_dtype self" "f \<or> \<not> scale_calced w"
    for w :: "slope_array_writer" and f
    using that sn[of "w\<lparr>scale_calced := True\<rparr>"] ds[of "w\<lparr>scale_calced := True\<rparr>"]
    by (auto simp add: SlopeArrayWriter_calc_scale_def calc_scale_def Let_def)
  have init: "SlopeArrayWriter_init (array self) (Some (out_dtype self)) True scaler =
                Inl UnsignedSpanError"
    using sn[of "\<lparr>array = array self, out_dtype = out_dtype self\<rparr>"]
    by (simp add: SlopeArrayWriter_init_def Let_def cs)
  from cs[of self force] run init show ?thesis by simp
qed

theorem unsigned_span_fails_witness:
  "SlopeArrayWriter_init (NDArray int8 [IntV (- 1), IntV 1]) (Some uint8) True Float32 =
     Inl UnsignedSpanError"
proof -
  let ?w = "\<lparr>array = NDArray int8 [IntV (- 1), IntV 1], out_dtype = uint8, needs_scale = True,
             scaler_dtype = Float32, slope = Fin 1, scale_calced = False\<rparr>"
  have h1: "kind (out_dtype ?w) = KUInt" by (simp add: np_eval)
  have h2: "wf_array (array ?w)" by (simp add: wf_array_def np_eval)
  have h3: "finite_range (array ?w) = Inr (IntV (- 1), IntV 1)" by (simp add: np_eval)
  have h4: "num_lt (IntV (- 1)) (IntV 0)" by (simp add: np_eval)
  have h5: "num_lt (IntV 0) (IntV 1)" by (simp add: np_eval)
  have h6: "False \<or> \<not> scale_calced ?w" by simp
  from unsigned_span_fails[OF h1 h2 h3 h4 h5 h6, of Float32] show ?thesis by simp
qed

text \<open>
  C2, as the code has it. For the array \<open>[0, 255]\<close> of \<^verbatim>\<open>uint8\<close> written to \<^verbatim>\<open>int8\<close>
  by a slope-only writer with the 32-bit scaler, the slope is \<open>255 / 127\<close> rounded to
  single precision, \<open>4210817 / 2097152\<close> (about 2.0078740); the slope 2.0 belongs to
  the array \<open>[0, 254]\<close> of the constructor's docstring.
\<close>

theorem slope_uint8_to_int8:
  "slope_of (SlopeArrayWriter_init (NDArray uint8 [IntV 0, IntV 255]) (Some int8) True Float32)
     = Some (Fin (4210817 / 2097152)) \<and>
   slope_of (SlopeArrayWriter_init (NDArray uint8 [IntV 0, IntV 254]) (Some int8) True Float32)
     = Some (Fin 2)"
  by (simp add: fl_eval np_eval w_eval cong: let_weak_cong)

text \<open>C2 as stated fails: the slope for \<open>[0, 255]\<close> is not 2.0.\<close>

theorem slope_uint8_to_int8_not_two:
  "slope_of (SlopeArrayWriter_init (NDArray uint8 [IntV 0, IntV 255]) (Some int8) True Float32)
     \<noteq> Some (Fin 2)"
  by (simp add: fl_eval np_eval w_eval cong: let_weak_cong)

section \<open>Slope and intercept scaling\<close>

text \<open>
  C8. For the array \<open>[0, 255]\<close> of \<^verbatim>\<open>uint8\<close> written to \<^verbatim>\<open>int8\<close> by a
  slope-and-intercept writer with the 32-bit scaler, \<^verbatim>\<open>calc_scale\<close> sets the slope to
  1.0 and the intercept to 128: whatever slope and intercept the writer held before,
  whenever the computation runs (it is forced, or the scale was not computed before),
  and so does the constructor that computes the scale.
\<close>

theorem slope_inter_uint8_to_int8:
  fixes w :: slope_inter_array_writer
  assumes "array w = NDArray uint8 [IntV 0, IntV 255]" and "out_dtype w = int8"
      and "scaler_dtype w = Float32" and "force \<or> \<not> scale_calced w"
  shows "SlopeInterArrayWriter_calc_scale force w =
           (None, w\<lparr>scale_calced := True, inter' := Fin 128, slope := Fin 1\<rparr>) \<and>
         SlopeInterArrayWriter_init (NDArray uint8 [IntV 0, IntV 255]) (Some int8) True Float32 =
           Inr \<lparr>array = NDArray uint8 [IntV 0, IntV 255], out_dtype = int8, needs_scale = True,
                scaler_dtype = Float32, slope = Fin 1, scale_calced = True, inter' = Fin 128\<rparr>"
proof -
  have cs: "SlopeInterArrayWriter_calc_scale force w =
           (None, w\<lparr>scale_calced := True, inter' := Fin 128, slope := Fin 1\<rparr>)"
    using assms by (auto simp add: fl_eval np_eval w_eval cong: let_weak_cong)
  have init: "SlopeInterArrayWriter_init (NDArray uint8 [IntV 0, IntV 255]) (Some int8) True Float32 =
           Inr \<lparr>array = NDArray uint8 [IntV 0, IntV 255], out_dtype = int8, needs_scale = True,
                scaler_dtype = Float32, slope = Fin 1, scale_calced = True, inter' = Fin 128\<rparr>"
    by (simp add: fl_eval np_eval w_eval cong: let_weak_cong)
  from cs init show ?thesis by simp
qed

theorem slope_inter_uint8_to_int8_witness:
  "SlopeInterArrayWriter_calc_scale False
     \<lparr>array = NDArray uint8 [IntV 0, IntV 255], out_dtype = int8, needs_scale = True,
      scaler_dtype = Float32, slope = Fin 7, scale_calced = False, inter' = Fin 3\<rparr> =
     (None,
      \<lparr>array = NDArray uint8 [IntV 0, IntV 255], out_dtype = int8, needs_scale = True,
       scaler_dtype = Float32, slope = Fin 1, scale_calced = True, inter' = Fin 128\<rparr>)"
proof -
  let ?w = "\<lparr>array = NDArray uint8 [IntV 0, IntV 255], out_dtype = int8, needs_scale = True,
      scaler_dtype = Float32, slope = Fin 7, scale_calced = False, inter' = Fin 3\<rparr>"
  have h1: "array ?w = NDArray uint8 [IntV 0, IntV 255]" by simp
  have h2: "out_dtype ?w = int8" by simp
  have h3: "scaler_dtype ?w = Float32" by simp
  have h4: "False \<or> \<not> scale_calced ?w" by simp
  from slope_inter_uint8_to_int8[OF h1 h2 h3 h4] show ?thesis by simp
qed

text \<open>
  C4. The claim is that a slope-and-intercept writer whose scale computation completes
  has a finite slope and a finite intercept.  \<^verbatim>\<open>_range_scale\<close> checks this at its end,
  but returns before the check when the range is a single value: for a \<^verbatim>\<open>float64\<close>
  array whose elements all equal \<open>2^130\<close>, beyond the largest single-precision
  number, the constructor returns a writer whose intercept is \<open>+\<infinity>\<close>.
\<close>

theorem single_value_inter_not_finite:
  "SlopeInterArrayWriter_init (NDArray float64 [FltV (Fin (2 ^ 130)), FltV (Fin (2 ^ 130))])
     (Some int16) True Float32 =
     Inr \<lparr>array = NDArray float64 [FltV (Fin (2 ^ 130)), FltV (Fin (2 ^ 130))],
          out_dtype = int16, needs_scale = True, scaler_dtype = Float32,
          slope = Fin 1, scale_calced = True, inter' = PInf\<rparr>"
  by (simp add: fl_eval np_eval w_eval cong: let_weak_cong)

text \<open>
  C5, as the code has it. Integer source, unsigned target, no safe cast, a finite range
  \<open>(mn, mx)\<close> outside the range of the target, and \<open>mx - mn\<close> at most the shared
  maximum: the constructor (which runs \<^verbatim>\<open>calc_scale\<close>) assigns \<open>mn\<close> to the
  intercept, where the setter stores it converted to the scaler type, and leaves the
  slope 1.  Neither the sign flip nor the range computation is tried.
\<close>

theorem offset_preferred:
  assumes src: "kind (dtype arr) \<in> {KInt, KUInt}" and out: "kind out = KUInt"
      and nc: "\<not> can_cast (dtype arr) out"
      and fr: "finite_range arr = Inr (IntV mn, IntV mx)"
      and oor: "\<not> (0 \<le> mn \<and> mx \<le> iinfo_max out)"
      and fits: "fl_le (Fin (of_int (mx - mn))) (snd (shared_range scaler out))"
  shows "SlopeInterArrayWriter_init arr (Some out) True scaler =
           Inr \<lparr>array = arr, out_dtype = out, needs_scale = True, scaler_dtype = scaler,
                slope = Fin 1, scale_calced = True,
                inter' = fl_cast (finfo scaler) (Fin (of_int mn))\<rparr>"
proof -
  have ne: "\<not> (mn = 0 \<and> mx = 0)" using oor by (auto simp add: iinfo_max_def out)
  have sn: "scaling_needed w = Inr True"
    if "array w = arr" "out_dtype w = out" for w :: "'b array_writer_scheme"
    using that src out nc fr oor ne
    by (auto simp add: scaling_needed_def Let_def iinfo_min_def num_le_def num_eq_def)
  have ds: "SlopeInterArrayWriter_do_scaling w = (None, set_inter w (Fin (of_int mn)))"
    if "array w = arr" "out_dtype w = out" "scaler_dtype w = scaler"
    for w :: "slope_inter_array_writer"
    using that src out fr oor ne fits
    by (auto simp add: SlopeInterArrayWriter_do_scaling_def Let_def iinfo_min_def
        num_le_def num_eq_def)
  show ?thesis
    using sn[of "\<lparr>array = arr, out_dtype = out\<rparr>"]
    by (simp add: SlopeInterArrayWriter_init_def SlopeArrayWriter_init_def Let_def
        SlopeInterArrayWriter_calc_scale_def calc_scale_def sn ds set_inter_def
        fl_cast_one fl_cast_zero
        del: fl_cast.simps finfo.simps)
qed

theorem offset_preferred_witness:
  "SlopeInterArrayWriter_init (NDArray int64 [IntV (2 ^ 33 + 1), IntV (2 ^ 33 + 5)])
     (Some uint32) True Float32 =
     Inr \<lparr>array = NDArray int64 [IntV (2 ^ 33 + 1), IntV (2 ^ 33 + 5)], out_dtype = uint32,
          needs_scale = True, scaler_dtype = Float32, slope = Fin 1, scale_calced = True,
          inter' = Fin (2 ^ 33)\<rparr>"
proof -
  let ?a = "NDArray int64 [IntV (2 ^ 33 + 1), IntV (2 ^ 33 + 5)]"
  have h1: "kind (dtype ?a) \<in> {KInt, KUInt}" by (simp add: np_eval)
  have h2: "kind uint32 = KUInt" by (simp add: np_eval)
  have h3: "\<not> can_cast (dtype ?a) uint32" by (simp add: np_eval)
  have h4: "finite_range ?a = Inr (IntV (2 ^ 33 + 1), IntV (2 ^ 33 + 5))"
    by (simp add: np_eval)
  have h5: "\<not> (0 \<le> (2 ^ 33 + 1 :: int) \<and> (2 ^ 33 + 5 :: int) \<le> iinfo_max uint32)"
    by (simp add: np_eval)
  have h6: "fl_le (Fin (of_int ((2 ^ 33 + 5) - (2 ^ 33 + 1)))) (snd (shared_range Float32 uint32))"
    by (simp add: fl_eval np_eval cong: let_weak_cong)
  have h7: "fl_cast (finfo Float32) (Fin (of_int (2 ^ 33 + 1))) = Fin (2 ^ 33)"
    by (simp add: fl_eval cong: let_weak_cong)
  from offset_preferred[OF h1 h2 h3 h4 h5 h6] h7 show ?thesis by simp
qed

text \<open>
  C5 as stated fails: for the \<^verbatim>\<open>int64\<close> array \<open>[2^33 + 1, 2^33 + 5]\<close> written to
  \<^verbatim>\<open>uint32\<close> the minimum is \<open>2^33 + 1\<close> and the difference 4 is below the shared
  maximum, but the intercept stored is \<open>2^33\<close>: single precision does not hold
  \<open>2^33 + 1\<close>.
\<close>

theorem offset_inter_rounded:
  "finite_range (NDArray int64 [IntV (2 ^ 33 + 1), IntV (2 ^ 33 + 5)]) =
     Inr (IntV (2 ^ 33 + 1), IntV (2 ^ 33 + 5)) \<and>
   snd (shared_range Float32 uint32) = Fin 4294967040 \<and>
   inter_of (SlopeInterArrayWriter_init (NDArray int64 [IntV (2 ^ 33 + 1), IntV (2 ^ 33 + 5)])
      (Some uint32) True Float32) = Some (Fin (2 ^ 33)) \<and>
   Fin (2 ^ 33) \<noteq> Fin (2 ^ 33 + 1)"
  by (simp add: fl_eval np_eval w_eval cong: let_weak_cong)

section \<open>The factory and the write\<close>

text \<open>
  C9. \<^verbatim>\<open>make_array_writer\<close> compares \<^verbatim>\<open>has_intercept\<close> with \<^verbatim>\<open>True\<close> by \<^verbatim>\<open>==\<close>.  For
  a value that is truthy but not equal to \<^verbatim>\<open>True\<close> (such as the integer 2), and any
  \<^verbatim>\<open>has_slope\<close>, the capability check does not raise, and the factory returns what the
  \<^verbatim>\<open>SlopeInterArrayWriter\<close> constructor returns: a slope-and-intercept writer, or the
  exception of that constructor.
\<close>

theorem factory_truthy_intercept:
  assumes "truthy has_intercept" and "\<not> py_eq_bool has_intercept True"
  shows "make_array_writer data out_type has_intercept has_slope kw =
           (case SlopeInterArrayWriter_init data out_type (kw_calc kw) (kw_scaler kw) of
              Inl e \<Rightarrow> Inl e | Inr w \<Rightarrow> Inr (SIAW w))"
  using assms by (simp add: make_array_writer_def)

theorem factory_truthy_intercept_witness:
  "make_array_writer (NDArray uint8 [IntV 0, IntV 255]) (Some int8) (PyInt 2) (PyBool False)
     \<lparr>kw_calc_scale = None, kw_scaler_dtype = None\<rparr> =
     Inr (SIAW \<lparr>array = NDArray uint8 [IntV 0, IntV 255], out_dtype = int8, needs_scale = True,
                scaler_dtype = Float32, slope = Fin 1, scale_calced = True, inter' = Fin 128\<rparr>)"
proof -
  have h1: "truthy (PyInt 2)" by simp
  have h2: "\<not> py_eq_bool (PyInt 2) True" by simp
  have h3: "SlopeInterArrayWriter_init (NDArray uint8 [IntV 0, IntV 255]) (Some int8)
              (kw_calc \<lparr>kw_calc_scale = None, kw_scaler_dtype = None\<rparr>)
              (kw_scaler \<lparr>kw_calc_scale = None, kw_scaler_dtype = None\<rparr>) =
            Inr \<lparr>array = NDArray uint8 [IntV 0, IntV 255], out_dtype = int8, needs_scale = True,
                 scaler_dtype = Float32, slope = Fin 1, scale_calced = True, inter' = Fin 128\<rparr>"
    by (simp add: fl_eval np_eval w_eval cong: let_weak_cong)
  show ?thesis
    by (simp only: factory_truthy_intercept[OF h1 h2] h3) simp
qed



section \<open>The slope is not zero for integer arrays\<close>

subsection \<open>The exponent of a number and the magnitude of its rounding\<close>








subsection \<open>Bounds through division, conversion and maximum\<close>






















subsection \<open>The scale computations\<close>


















end
